theory Spec2Isabelle
  imports Main "HOL-Library.Word"
begin

unbundle bit_operations_syntax

section \<open>Python values used by Spreadsheet.py\<close>

text \<open>
  The module is Python 2 (it uses the \<^verbatim>\<open>print\<close> statement and
  \<^verbatim>\<open>raise E, msg\<close>), so a \<^verbatim>\<open>str\<close> is a byte string: \<^typ>\<open>string\<close>.
  Exceptions are values of \<open>error\<close>; a function that can raise returns
  \<open>error + 'a\<close> with \<open>Inl\<close> for the exception.
\<close>

datatype error =
    IndexError string
  | KeyError string
  | ValueError
  | NameError string
  | TypeError
  | AttributeError

definition TAB :: char where
  "TAB = CHR 0x09"

definition NEWLINE :: char where
  "NEWLINE = CHR 0x0A"

definition QUOTE :: char where
  "QUOTE = CHR 0x27"

text \<open>\<^verbatim>\<open>s.split(d)\<close> for a one-character separator: never the empty list.\<close>

fun py_split :: "char \<Rightarrow> string \<Rightarrow> string list" where
  "py_split d [] = [[]]"
| "py_split d (c # cs) =
     (if c = d then [] # py_split d cs
      else (c # hd (py_split d cs)) # tl (py_split d cs))"

text \<open>\<^verbatim>\<open>sep.join(xs)\<close>.\<close>

fun py_join :: "string \<Rightarrow> string list \<Rightarrow> string" where
  "py_join sep [] = []"
| "py_join sep [x] = x"
| "py_join sep (x # y # ys) = x @ sep @ py_join sep (y # ys)"

text \<open>\<^verbatim>\<open>s.startswith('=')\<close>.\<close>

definition startswith_eq :: "string \<Rightarrow> bool" where
  "startswith_eq s = (case s of [] \<Rightarrow> False | c # _ \<Rightarrow> c = CHR ''='')"

text \<open>\<^verbatim>\<open>c.isupper()\<close> and \<^verbatim>\<open>c.isalpha()\<close> on one byte, in the C locale.\<close>

definition isupper :: "char \<Rightarrow> bool" where
  "isupper c = (c \<in> set ''ABCDEFGHIJKLMNOPQRSTUVWXYZ'')"

definition islower :: "char \<Rightarrow> bool" where
  "islower c = (c \<in> set ''abcdefghijklmnopqrstuvwxyz'')"

definition isalpha :: "char \<Rightarrow> bool" where
  "isalpha c = (isupper c \<or> islower c)"

text \<open>\<^verbatim>\<open>str(n)\<close> for an integer: its decimal digits, with a sign when negative.\<close>

definition digit_char :: "nat \<Rightarrow> char" where
  "digit_char n = ''0123456789'' ! (n mod 10)"

fun str_nat :: "nat \<Rightarrow> string" where
  "str_nat n = (if n < 10 then [digit_char n] else str_nat (n div 10) @ [digit_char n])"

definition str_int :: "int \<Rightarrow> string" where
  "str_int i = (if i < 0 then CHR ''-'' # str_nat (nat (- i)) else str_nat (nat i))"

text \<open>\<^verbatim>\<open>xs[i]\<close>: from the front, or from the back when \<open>i\<close> is negative; \<open>None\<close> stands
  for the IndexError of an index on neither side.\<close>

definition py_index :: "'a list \<Rightarrow> int \<Rightarrow> 'a option" where
  "py_index xs i =
     (if 0 \<le> i \<and> i < int (length xs) then Some (xs ! nat i)
      else if i < 0 \<and> - int (length xs) \<le> i then Some (xs ! nat (int (length xs) + i))
      else None)"

text \<open>\<^verbatim>\<open>xs.index(x)\<close>: the first position of \<open>x\<close>, ValueError when absent.\<close>

fun list_index :: "'a list \<Rightarrow> 'a \<Rightarrow> nat option" where
  "list_index [] x = None"
| "list_index (y # ys) x =
     (if y = x then Some 0 else map_option Suc (list_index ys x))"

section \<open>The xlwt sheet behind a Worksheet\<close>

text \<open>
  \<^verbatim>\<open>worksheet.write(row, col, label)\<close> stores a cell. A label is either an item as
  it stands or \<^verbatim>\<open>xlwt.Formula(text)\<close>; the Spreadsheet class also passes a style.
  The sheet is the finite map from (row, column) to what was written there. Every xlwt
  sheet is held by exactly one Worksheet, so the model keeps it in the field
  \<open>worksheet\<close> itself.
\<close>

datatype cell = Data string | Formula string | Styled string string

type_synonym xlwt_sheet = "int \<times> nat \<Rightarrow> cell option"

definition xlwt_write :: "xlwt_sheet \<Rightarrow> int \<Rightarrow> nat \<Rightarrow> cell \<Rightarrow> xlwt_sheet" where
  "xlwt_write g r c v = g((r, c) \<mapsto> v)"

text \<open>A sheet read by xlrd: its row and column counts and its cell values.\<close>

record xlrd_sheet =
  sheet_name :: string
  nrows :: nat
  ncols :: nat
  cell_value :: "nat \<Rightarrow> nat \<Rightarrow> string"

text \<open>\<^verbatim>\<open>xlutils.copy.copy\<close> turns what xlrd read into a writable sheet with the same cells.\<close>

definition copy_sheet :: "xlrd_sheet \<Rightarrow> xlwt_sheet" where
  "copy_sheet rs =
     (\<lambda>(r, c). if 0 \<le> r \<and> nat r < nrows rs \<and> c < ncols rs
               then Some (Data (cell_value rs (nat r) c)) else None)"

section \<open>Dictionary order in CPython 2\<close>

text \<open>
  \<^verbatim>\<open>addRow\<close> walks \<^verbatim>\<open>style.keys()\<close>. Python 2 lists the keys of a dict in the
  order of its hash table, so the order is computed here as CPython 2 does: the string
  hash (on a 64-bit \<^verbatim>\<open>long\<close>; hash randomisation is off by default), a table of 8 slots
  (\<^verbatim>\<open>PyDict_MINSIZE\<close>, enough for up to 5 keys), the slot \<^verbatim>\<open>hash & 7\<close>, and on
  a collision the probe sequence \<^verbatim>\<open>i = (i << 2) + i + perturb + 1\<close> with
  \<^verbatim>\<open>perturb >>= 5\<close>. \<^verbatim>\<open>keys()\<close> reads the table from slot 0 upwards.
\<close>

fun string_hash_loop :: "64 word \<Rightarrow> string \<Rightarrow> 64 word" where
  "string_hash_loop x [] = x"
| "string_hash_loop x (c # cs) = string_hash_loop ((1000003 * x) XOR of_nat (of_char c)) cs"

definition string_hash :: "string \<Rightarrow> 64 word" where
  "string_hash s =
     (case s of
        [] \<Rightarrow> 0
      | c # _ \<Rightarrow>
          (let x = string_hash_loop (push_bit 7 (of_nat (of_char c))) s XOR of_nat (length s)
           in if x = - 1 then - 2 else x))"

fun dict_probe ::
  "nat \<Rightarrow> string option list \<Rightarrow> string \<Rightarrow> 64 word \<Rightarrow> 64 word \<Rightarrow> nat option" where
  "dict_probe 0 table key i perturb = None"
| "dict_probe (Suc fuel) table key i perturb =
     (let slot = unat (i AND 7) in
      case table ! slot of
        None \<Rightarrow> Some slot
      | Some k \<Rightarrow>
          if k = key then Some slot
          else dict_probe fuel table key (push_bit 2 i + i + perturb + 1) (drop_bit 5 perturb))"

definition dict_insert :: "string option list \<Rightarrow> string \<Rightarrow> string option list" where
  "dict_insert table key =
     (case dict_probe 64 table key (string_hash key AND 7) (string_hash key) of
        Some slot \<Rightarrow> table[slot := Some key]
      | None \<Rightarrow> table)"

definition dict_keys :: "string list \<Rightarrow> string list" where
  "dict_keys ks = map the (filter (\<lambda>e. e \<noteq> None) (foldl dict_insert (replicate 8 None) ks))"

section \<open>class Spreadsheet\<close>

record Spreadsheet =
  name :: string
  headers :: "string list"
  sheet :: xlwt_sheet
  col_width :: "nat \<Rightarrow> nat option"
  current_row :: int

text \<open>
  The header scan of \<^verbatim>\<open>Spreadsheet.__init__\<close>: the first row whose first cell is
  not empty gives the titles. \<^verbatim>\<open>rs.cell(rindex, 0)\<close> raises IndexError on a sheet
  with no column.
\<close>

fun scan_headers :: "xlrd_sheet \<Rightarrow> nat list \<Rightarrow> error + string list" where
  "scan_headers rs [] = Inr []"
| "scan_headers rs (rindex # rest) =
     (if ncols rs = 0 then Inl (IndexError [])
      else if cell_value rs rindex 0 \<noteq> [] then Inr (map (cell_value rs rindex) [0..<ncols rs])
      else scan_headers rs rest)"

text \<open>
  \<^verbatim>\<open>Spreadsheet.__init__(name, title)\<close>. \<open>existing\<close> is the first sheet of the file
  \<open>name\<close> when \<^verbatim>\<open>os.path.exists(name)\<close>, and \<open>None\<close> otherwise.
\<close>

definition Spreadsheet_init ::
  "string \<Rightarrow> string \<Rightarrow> xlrd_sheet option \<Rightarrow> error + Spreadsheet" where
  "Spreadsheet_init xls_name t existing =
     (case existing of
        None \<Rightarrow>
          Inr \<lparr>name = xls_name, headers = [], sheet = Map.empty, col_width = Map.empty,
               current_row = - 1\<rparr>
      | Some rs \<Rightarrow>
          (case scan_headers rs [0..<nrows rs] of
             Inl e \<Rightarrow> Inl e
           | Inr hs \<Rightarrow>
               Inr \<lparr>name = xls_name, headers = hs, sheet = copy_sheet rs,
                    col_width = Map.empty, current_row = int (nrows rs)\<rparr>))"

subsection \<open>The style of a row\<close>

text \<open>The dict \<^verbatim>\<open>style\<close> after lines 366-375, as a function of its key.\<close>

definition style_dict :: "bool \<Rightarrow> bool \<Rightarrow> string \<Rightarrow> string \<Rightarrow> string list" where
  "style_dict bold wrap bg_color key =
     (if key = ''font'' then (if bold then [''bold True''] else [])
      else if key = ''alignment'' then (if wrap then [''wrap True''] else [])
      else if key = ''pattern'' then
        (if bg_color \<noteq> [] then [''pattern solid'', ''fore_color '' @ bg_color] else [])
      else [])"

definition style_keys :: "string list" where
  "style_keys = dict_keys [''font'', ''alignment'', ''pattern'']"

text \<open>
  The loop of lines 378-382 over the keys, building \<open>easyxf_style\<close>; \<open>keys\<close> is the
  list that \<^verbatim>\<open>style.keys()\<close> returns.
\<close>

fun easyxf_loop :: "(string \<Rightarrow> string list) \<Rightarrow> string list \<Rightarrow> string \<Rightarrow> string" where
  "easyxf_loop style [] easyxf_style = easyxf_style"
| "easyxf_loop style (key # keys) easyxf_style =
     easyxf_loop style keys
       (if style key \<noteq> [] then
          easyxf_style @ key @ '': '' @ py_join '', '' (style key) @ ''; ''
        else easyxf_style)"

definition easyxf_style_with :: "string list \<Rightarrow> bool \<Rightarrow> bool \<Rightarrow> string \<Rightarrow> string" where
  "easyxf_style_with keys bold wrap bg_color =
     easyxf_loop (style_dict bold wrap bg_color) keys []"

definition easyxf_style :: "bool \<Rightarrow> bool \<Rightarrow> string \<Rightarrow> string" where
  "easyxf_style bold wrap bg_color = easyxf_style_with style_keys bold wrap bg_color"

subsection \<open>addRow\<close>

text \<open>
  The loop over the items of a row. An item that starts with \<^verbatim>\<open>=\<close> reaches
  \<^verbatim>\<open>self.sheet.write(self.current_row, cindex_item, xf_style)\<close>, where
  \<^verbatim>\<open>cindex_item\<close> is not defined: NameError.
\<close>

fun addRow_loop ::
  "int \<Rightarrow> string \<Rightarrow> bool \<Rightarrow> nat \<Rightarrow> string list \<Rightarrow> xlwt_sheet \<Rightarrow> (nat \<Rightarrow> nat option) \<Rightarrow>
   error option \<times> xlwt_sheet \<times> (nat \<Rightarrow> nat option)" where
  "addRow_loop r xf_style set_widths cindex [] g w = (None, g, w)"
| "addRow_loop r xf_style set_widths cindex (item # items) g w =
     (if startswith_eq item then (Some (NameError ''cindex_item''), g, w)
      else
        addRow_loop r xf_style set_widths (cindex + 1) items
          (xlwt_write g r cindex (Styled item xf_style))
          (if set_widths then w(cindex \<mapsto> 256 * (length item + 5)) else w))"

definition addRow ::
  "string list \<Rightarrow> bool \<Rightarrow> bool \<Rightarrow> bool \<Rightarrow> string \<Rightarrow> Spreadsheet \<Rightarrow>
   (error + int) \<times> Spreadsheet" where
  "addRow row set_widths bold wrap bg_color s =
     (let xf_style = easyxf_style bold wrap bg_color;
          r = current_row s + 1
      in case addRow_loop r xf_style set_widths 0 row (sheet s) (col_width s) of
           (err, g, w) \<Rightarrow>
             (case err of Some e \<Rightarrow> Inl e | None \<Rightarrow> Inr r,
              s\<lparr>sheet := g, col_width := w, current_row := r\<rparr>))"

definition addTitleRow :: "string list \<Rightarrow> Spreadsheet \<Rightarrow> (error + int) \<times> Spreadsheet" where
  "addTitleRow hs s =
     addRow hs True True False [] (s\<lparr>headers := hs, current_row := current_row s + 1\<rparr>)"

definition addEmptyRow :: "string \<Rightarrow> Spreadsheet \<Rightarrow> (error + int) \<times> Spreadsheet" where
  "addEmptyRow color s =
     (if color = [] then (Inr (current_row s + 1), s\<lparr>current_row := current_row s + 1\<rparr>)
      else addRow (map (\<lambda>item. []) (headers s)) False False False color s)"

section \<open>class Worksheet\<close>

record Worksheet =
  title :: string
  is_new :: bool
  worksheet :: xlwt_sheet
  current_row :: int
  data :: "string list"

text \<open>
  \<^verbatim>\<open>Worksheet.__init__(workbook, title, xlrd_index, xlrd_sheet)\<close>. With both optional
  arguments absent the sheet is new. Otherwise the sheet exists already:
  \<^verbatim>\<open>get_sheet(None)\<close> is a TypeError and \<^verbatim>\<open>None.nrows\<close> an AttributeError;
  \<open>xlrd_index\<close> is the index of \<open>xlrd_sheet\<close> in the copied workbook, as
  \<^verbatim>\<open>Workbook.__init__\<close> passes it.
\<close>

definition Worksheet_init ::
  "string \<Rightarrow> nat option \<Rightarrow> xlrd_sheet option \<Rightarrow> error + Worksheet" where
  "Worksheet_init t xlrd_index xlrd_sheet =
     (if xlrd_index = None \<and> xlrd_sheet = None then
        Inr \<lparr>title = t, is_new = True, worksheet = Map.empty, current_row = - 1, data = []\<rparr>
      else
        (case xlrd_index of
           None \<Rightarrow> Inl TypeError
         | Some i \<Rightarrow>
             (case xlrd_sheet of
                None \<Rightarrow> Inl AttributeError
              | Some rs \<Rightarrow>
                  Inr \<lparr>title = t, is_new = False, worksheet = copy_sheet rs,
                       current_row = int (nrows rs) - 1, data = []\<rparr>)))"

definition addTabData :: "string list \<Rightarrow> Worksheet \<Rightarrow> Worksheet" where
  "addTabData rows ws = ws\<lparr>data := data ws @ rows\<rparr>"

definition addText :: "string \<Rightarrow> Worksheet \<Rightarrow> Worksheet" where
  "addText text ws = addTabData (py_split NEWLINE text) ws"

subsection \<open>insertColumn\<close>

text \<open>
  \<open>insert_items\<close> is \<^verbatim>\<open>None\<close> (the default), a single item or a list of items.
  Items are strings: \<^verbatim>\<open>'\t'.join\<close> raises TypeError on anything else, so the
  items a row is rebuilt from are \<open>string option\<close>, with \<open>None\<close> for Python's
  \<^verbatim>\<open>None\<close>.
\<close>

datatype insert_items = NoItems | Item string | Items "string list"

text \<open>The data item of lines 205-212, for the column index \<open>j\<close> of the loop.\<close>

definition insert_item :: "insert_items \<Rightarrow> nat \<Rightarrow> string option" where
  "insert_item insert_items j =
     (case insert_items of
        Items xs \<Rightarrow> (case py_index xs (int j - 1) of Some x \<Rightarrow> Some x | None \<Rightarrow> Some [])
      | Item x \<Rightarrow> Some x
      | NoItems \<Rightarrow> None)"

text \<open>
  The inner loop over \<open>j\<close>: \<open>items\<close> are the items not yet visited, \<open>new_items\<close> the
  row built so far, \<open>insert_title\<close> the flag shared by all rows.
\<close>

fun insert_in_row ::
  "int \<Rightarrow> insert_items \<Rightarrow> string \<Rightarrow> nat \<Rightarrow> string list \<Rightarrow>
   string option list \<Rightarrow> bool \<Rightarrow> string option list \<times> bool" where
  "insert_in_row position insert_items t j [] new_items insert_title =
     (new_items, insert_title)"
| "insert_in_row position insert_items t j (item # items) new_items insert_title =
     (if int j = position then
        (if insert_title then
           insert_in_row position insert_items t (Suc j) items
             (new_items @ [Some t] @ [Some item]) False
         else
           insert_in_row position insert_items t (Suc j) items
             (new_items @ [insert_item insert_items j] @ [Some item]) insert_title)
      else
        insert_in_row position insert_items t (Suc j) items
          (new_items @ [Some item]) insert_title)"

text \<open>\<^verbatim>\<open>'\t'.join(new_items)\<close>: TypeError when an item is \<^verbatim>\<open>None\<close>.\<close>

definition join_items :: "string option list \<Rightarrow> error + string" where
  "join_items new_items =
     (if None \<in> set new_items then Inl TypeError
      else Inr (py_join [TAB] (map the new_items)))"

text \<open>
  The outer loop over the rows: \<open>done\<close> are the rows already replaced, \<open>rows\<close> the
  rows still to visit. An exception leaves \<open>self.data\<close> with the rows replaced so far.
\<close>

fun insert_rows ::
  "int \<Rightarrow> insert_items \<Rightarrow> string \<Rightarrow> string list \<Rightarrow> string list \<Rightarrow> bool \<Rightarrow>
   (error + bool) \<times> string list" where
  "insert_rows position insert_items t done [] insert_title = (Inr True, done)"
| "insert_rows position insert_items t done (row # rows) insert_title =
     (case insert_in_row position insert_items t 0 (py_split TAB row) [] insert_title of
        (new_items, insert_title') \<Rightarrow>
          (case join_items new_items of
             Inl e \<Rightarrow> (Inl e, done @ row # rows)
           | Inr new_row \<Rightarrow>
               insert_rows position insert_items t (done @ [new_row]) rows insert_title'))"

definition insertColumn ::
  "int \<Rightarrow> insert_items \<Rightarrow> string \<Rightarrow> Worksheet \<Rightarrow> (error + bool) \<times> Worksheet" where
  "insertColumn position insert_items t ws =
     (if \<not> is_new ws then (Inr False, ws)
      else
        (case insert_rows position insert_items t [] (data ws) True of
           (res, rows) \<Rightarrow> (res, ws\<lparr>data := rows\<rparr>)))"

subsection \<open>getColumnId\<close>

text \<open>
  The names bound at module level: what lines 32-38 import, and the three classes. The
  name \<^verbatim>\<open>string\<close> that \<^verbatim>\<open>getColumnId\<close> reads is not among them (nor is it a
  builtin), and reading it raises NameError.
\<close>

definition module_globals :: "string list" where
  "module_globals =
     [''xlwt'', ''xlrd'', ''xlutils'', ''rowcol_to_cell'', ''easyxf'', ''os'', ''logging'',
      ''Workbook'', ''Worksheet'', ''Spreadsheet'']"

definition string_uppercase :: string where
  "string_uppercase = ''ABCDEFGHIJKLMNOPQRSTUVWXYZ''"

definition column_not_found :: "string \<Rightarrow> string" where
  "column_not_found nm = ''Column '' @ [QUOTE] @ nm @ [QUOTE] @ '' not found''"

text \<open>
  \<^verbatim>\<open>self.data[0]\<close> on an empty list and \<^verbatim>\<open>string.uppercase[i]\<close> out of range
  raise IndexError, which the \<^verbatim>\<open>except\<close> clause catches and raises again with its
  message. \<^verbatim>\<open>list.index\<close> raises ValueError, and the unbound name NameError: the
  clause lets both pass.
\<close>

definition getColumnId_with :: "string list \<Rightarrow> string \<Rightarrow> Worksheet \<Rightarrow> error + string" where
  "getColumnId_with globals nm ws =
     (case data ws of
        [] \<Rightarrow> Inl (IndexError (column_not_found nm))
      | row # _ \<Rightarrow>
          (case list_index (py_split TAB row) nm of
             None \<Rightarrow> Inl ValueError
           | Some i \<Rightarrow>
               if ''string'' \<notin> set globals then Inl (NameError ''string'')
               else
                 (case py_index string_uppercase (int i) of
                    None \<Rightarrow> Inl (IndexError (column_not_found nm))
                  | Some c \<Rightarrow> Inr [c])))"

definition getColumnId :: "string \<Rightarrow> Worksheet \<Rightarrow> error + string" where
  "getColumnId nm ws = getColumnId_with module_globals nm ws"

subsection \<open>save\<close>

text \<open>
  Line 249 tests \<^verbatim>\<open>c.isalpha() and c.isupper\<close>: \<^verbatim>\<open>c.isupper\<close> without
  parentheses is the bound method, an object that counts as true.
\<close>

definition isupper_method :: "char \<Rightarrow> bool" where
  "isupper_method c = True"

text \<open>The loop of lines 247-253 over the characters of \<^verbatim>\<open>item[1:]\<close>.\<close>

fun formula_loop :: "int \<Rightarrow> string \<Rightarrow> string \<Rightarrow> string" where
  "formula_loop row formula [] = formula"
| "formula_loop row formula (c # cs) =
     formula_loop row
       (if isalpha c \<and> isupper_method c then (formula @ [c]) @ str_int (row + 1)
        else formula @ [c])
       cs"

text \<open>What a formula item becomes in the row \<open>row\<close> (the value of \<open>current_row\<close>).\<close>

definition formula_text :: "string \<Rightarrow> int \<Rightarrow> string" where
  "formula_text item row = formula_loop row [] (drop 1 item)"

text \<open>
  The label that the loop below writes for an item: \<^verbatim>\<open>xlwt.Formula(formula)\<close> when
  the item starts with \<^verbatim>\<open>=\<close>, the item itself otherwise.
\<close>

definition item_cell :: "string \<Rightarrow> int \<Rightarrow> cell" where
  "item_cell item row =
     (if startswith_eq item then Formula (formula_text item row) else Data item)"

text \<open>The loop of lines 243-259 over the items of one row.\<close>

fun save_items :: "int \<Rightarrow> nat \<Rightarrow> string list \<Rightarrow> xlwt_sheet \<Rightarrow> xlwt_sheet" where
  "save_items row cindex [] g = g"
| "save_items row cindex (item # items) g =
     save_items row (cindex + 1) items
       (if startswith_eq item then xlwt_write g row cindex (Formula (formula_text item row))
        else xlwt_write g row cindex (Data item))"

text \<open>The loop of lines 240-259 over the rows.\<close>

fun save_rows :: "string list \<Rightarrow> int \<Rightarrow> xlwt_sheet \<Rightarrow> int \<times> xlwt_sheet" where
  "save_rows [] cur g = (cur, g)"
| "save_rows (row # rows) cur g =
     save_rows rows (cur + 1) (save_items (cur + 1) 0 (py_split TAB row) g)"

definition Worksheet_save :: "Worksheet \<Rightarrow> Worksheet" where
  "Worksheet_save ws =
     (case save_rows (data ws) (current_row ws) (worksheet ws) of
        (cur, g) \<Rightarrow> ws\<lparr>worksheet := g, current_row := cur, data := [], is_new := False\<rparr>)"

section \<open>class Workbook\<close>

text \<open>
  A Worksheet object is known by its position in \<open>sheets\<close>: the objects are only ever
  appended, so the position is the identity of the object.
\<close>

record Workbook =
  name :: string
  sheets :: "Worksheet list"

fun sheet_index :: "string \<Rightarrow> Worksheet list \<Rightarrow> nat option" where
  "sheet_index t [] = None"
| "sheet_index t (s # ss) = (if t = title s then Some 0 else map_option Suc (sheet_index t ss))"

definition no_sheet_called :: "string \<Rightarrow> string" where
  "no_sheet_called t = ''No sheet called '' @ [QUOTE] @ t @ [QUOTE] @ '' found''"

definition getSheet :: "string \<Rightarrow> Workbook \<Rightarrow> error + nat" where
  "getSheet t wb =
     (case sheet_index t (sheets wb) of
        Some i \<Rightarrow> Inr i
      | None \<Rightarrow> Inl (KeyError (no_sheet_called t)))"

text \<open>
  \<^verbatim>\<open>addSheet(title, xlrd_sheet, xlrd_index)\<close> returns the Worksheet object, here its
  position. \<^verbatim>\<open>xlwt\<close>'s \<^verbatim>\<open>add_sheet\<close> is taken to accept the title.
\<close>

definition append_sheet :: "Worksheet \<Rightarrow> Workbook \<Rightarrow> (error + nat) \<times> Workbook" where
  "append_sheet ws wb = (Inr (length (sheets wb)), wb\<lparr>sheets := sheets wb @ [ws]\<rparr>)"

definition addSheet ::
  "string \<Rightarrow> xlrd_sheet option \<Rightarrow> nat option \<Rightarrow> Workbook \<Rightarrow> (error + nat) \<times> Workbook" where
  "addSheet t xlrd_sheet xlrd_index wb =
     (if xlrd_index = None \<and> xlrd_sheet = None then
        (case getSheet t wb of
           Inr ws \<Rightarrow> (Inr ws, wb)
         | Inl (KeyError msg) \<Rightarrow>
             (case Worksheet_init t None None of
                Inl e \<Rightarrow> (Inl e, wb)
              | Inr ws \<Rightarrow> append_sheet ws wb)
         | Inl e \<Rightarrow> (Inl e, wb))
      else
        (case Worksheet_init t xlrd_index xlrd_sheet of
           Inl e \<Rightarrow> (Inl e, wb)
         | Inr ws \<Rightarrow> append_sheet ws wb))"

text \<open>
  \<^verbatim>\<open>Workbook.__init__(xls_name)\<close>: \<open>existing\<close> are the sheets of the file when
  \<^verbatim>\<open>os.path.exists(xls_name)\<close>, and \<open>None\<close> otherwise. The loop adds them in order.
\<close>

fun add_existing :: "nat \<Rightarrow> xlrd_sheet list \<Rightarrow> Workbook \<Rightarrow> error + Workbook" where
  "add_existing i [] wb = Inr wb"
| "add_existing i (s # ss) wb =
     (case addSheet (sheet_name s) (Some s) (Some i) wb of
        (Inl e, wb') \<Rightarrow> Inl e
      | (Inr ws, wb') \<Rightarrow> add_existing (i + 1) ss wb')"

definition Workbook_init :: "string \<Rightarrow> xlrd_sheet list option \<Rightarrow> error + Workbook" where
  "Workbook_init xls_name existing =
     (case existing of
        None \<Rightarrow> Inr \<lparr>name = xls_name, sheets = []\<rparr>
      | Some rb \<Rightarrow> add_existing 0 rb \<lparr>name = xls_name, sheets = []\<rparr>)"

text \<open>\<^verbatim>\<open>Workbook.save\<close>: every sheet is saved in turn, then xlwt writes the file.\<close>

definition Workbook_save :: "Workbook \<Rightarrow> Workbook" where
  "Workbook_save wb = wb\<lparr>sheets := map Worksheet_save (sheets wb)\<rparr>"

section \<open>Worksheet.insertColumn on a sheet that is not new\<close>

text \<open>
  C4: on a sheet whose \<open>is_new\<close> is false, insertColumn returns False (no exception) and
  leaves the sheet, its rows included, as it was.
\<close>

theorem insertColumn_not_new:
  "\<not> is_new ws \<Longrightarrow> insertColumn position insert_items t ws = (Inr False, ws)"
  by (simp add: insertColumn_def)

theorem insertColumn_not_new_witness:
  "\<not> is_new \<lparr>title = ''test1'', is_new = False, worksheet = Map.empty, current_row = 1,
               data = [''a'' @ [TAB] @ ''b'']\<rparr> \<and>
   insertColumn 1 (Item ''v'') ''X''
     \<lparr>title = ''test1'', is_new = False, worksheet = Map.empty, current_row = 1,
      data = [''a'' @ [TAB] @ ''b'']\<rparr> =
   (Inr False,
    \<lparr>title = ''test1'', is_new = False, worksheet = Map.empty, current_row = 1,
     data = [''a'' @ [TAB] @ ''b'']\<rparr>)"
proof -
  have h: "\<not> is_new \<lparr>title = ''test1'', is_new = False, worksheet = Map.empty,
                       current_row = 1, data = [''a'' @ [TAB] @ ''b'']\<rparr>"
    by simp
  show ?thesis
    using h insertColumn_not_new [OF h, of 1 "Item ''v''" "''X''"] by simp
qed

section \<open>Formulas written by Worksheet.save\<close>

lemma formula_loop_concat:
  "formula_loop row acc cs =
     acc @ concat (map (\<lambda>c. if isalpha c then c # str_int (row + 1) else [c]) cs)"
  by (induction cs arbitrary: acc) (simp_all add: isupper_method_def)

lemma formula_text_concat:
  "formula_text (CHR ''='' # s) row =
     concat (map (\<lambda>c. if isalpha c then c # str_int (row + 1) else [c]) s)"
  by (simp add: formula_text_def formula_loop_concat)

lemma str_int_1: "str_int 1 = ''1''"
  by (simp add: str_int_def digit_char_def)

lemma str_int_10: "str_int 10 = ''10''"
  by (simp add: str_int_def digit_char_def)

text \<open>
  C2, as the code has it: for an item \<^verbatim>\<open>=\<close> followed by \<open>s\<close> whose letters are all
  upper case, and any row, the formula text is \<open>s\<close> with the decimal form of
  \<open>row + 1\<close> put after every upper-case letter and every other character kept as it is.
  The leading \<^verbatim>\<open>=\<close> itself is not part of the text: the loop runs over
  \<^verbatim>\<open>item[1:]\<close> and the text goes to \<^verbatim>\<open>xlwt.Formula\<close>.
\<close>

theorem formula_text_uppercase:
  assumes "\<forall>c\<in>set s. isalpha c \<longrightarrow> isupper c"
  shows "formula_text (CHR ''='' # s) row =
     concat (map (\<lambda>c. if isupper c then c # str_int (row + 1) else [c]) s)"
proof -
  have "concat (map (\<lambda>c. if isalpha c then c # str_int (row + 1) else [c]) s) =
        concat (map (\<lambda>c. if isupper c then c # str_int (row + 1) else [c]) s)"
    using assms by (intro arg_cong [where f = concat] map_cong) (auto simp: isalpha_def)
  then show ?thesis
    by (simp only: formula_text_concat)
qed

text \<open>The two examples of the claim, without the leading \<^verbatim>\<open>=\<close>.\<close>

theorem formula_text_uppercase_witness:
  "formula_text ''=A-B'' 0 = ''A1-B1'' \<and> formula_text ''=A+B-C'' 9 = ''A10+B10-C10''"
proof -
  have h1: "\<forall>c\<in>set ''A-B''. isalpha c \<longrightarrow> isupper c"
    by (simp add: isalpha_def isupper_def islower_def)
  have h2: "\<forall>c\<in>set ''A+B-C''. isalpha c \<longrightarrow> isupper c"
    by (simp add: isalpha_def isupper_def islower_def)
  show ?thesis
    using formula_text_uppercase [OF h1, of 0] formula_text_uppercase [OF h2, of 9]
    by (simp add: isupper_def str_int_1 str_int_10)
qed

text \<open>
  C2 as stated fails: the text written for \<^verbatim>\<open>=A-B\<close> in row 0 is \<^verbatim>\<open>A1-B1\<close>, and
  not \<^verbatim>\<open>=A1-B1\<close>.
\<close>

theorem formula_text_drops_marker:
  "formula_text ''=A-B'' 0 = ''A1-B1'' \<and> formula_text ''=A-B'' 0 \<noteq> ''=A1-B1''"
  by (simp add: formula_text_def isalpha_def isupper_def islower_def isupper_method_def
      str_int_1)

text \<open>
  C10: every letter of the item, lower case as well as upper case, is followed by the
  decimal form of \<open>row + 1\<close>, because the test of line 249 reads \<^verbatim>\<open>c.isupper\<close>
  without calling it. A new sheet holding the one row \<^verbatim>\<open>=a+B\<close> gets the formula
  \<^verbatim>\<open>a1+B1\<close> in its cell (0, 0).
\<close>

theorem formula_text_every_letter:
  "formula_text (CHR ''='' # s) row =
     concat (map (\<lambda>c. if isalpha c then c # str_int (row + 1) else [c]) s) \<and>
   worksheet (Worksheet_save
     \<lparr>title = ''test1'', is_new = True, worksheet = Map.empty, current_row = - 1,
      data = [''=a+B'']\<rparr>) (0, 0) = Some (Formula ''a1+B1'')"
  by (simp add: formula_text_concat Worksheet_save_def startswith_eq_def xlwt_write_def
      isalpha_def isupper_def islower_def str_int_1 TAB_def)

theorem formula_text_every_letter_witness:
  "formula_text ''=a+B'' 0 = ''a1+B1''"
  using formula_text_every_letter [of "''a+B''" 0]
  by (simp add: isalpha_def isupper_def islower_def str_int_1)

section \<open>Worksheet.save on an empty buffer\<close>

text \<open>
  C9, as the code has it: when \<open>data\<close> is empty, save writes no cell, leaves
  \<open>current_row\<close> and the empty buffer as they are and sets \<open>is_new\<close> to False, so it
  changes nothing but that flag; saving again changes nothing at all.
\<close>

theorem Worksheet_save_empty:
  assumes "data ws = []"
  shows "Worksheet_save ws = ws\<lparr>is_new := False\<rparr> \<and>
         current_row (Worksheet_save ws) = current_row ws \<and>
         worksheet (Worksheet_save ws) = worksheet ws \<and>
         data (Worksheet_save ws) = [] \<and>
         Worksheet_save (Worksheet_save ws) = Worksheet_save ws"
  using assms by (simp add: Worksheet_save_def)

theorem Worksheet_save_empty_witness:
  "Worksheet_save
     \<lparr>title = ''test1'', is_new = True, worksheet = Map.empty, current_row = - 1, data = []\<rparr> =
   \<lparr>title = ''test1'', is_new = False, worksheet = Map.empty, current_row = - 1, data = []\<rparr>"
  using Worksheet_save_empty
    [of "\<lparr>title = ''test1'', is_new = True, worksheet = Map.empty, current_row = - 1,
          data = []\<rparr>"]
  by simp

text \<open>
  C9 as stated fails: on a new sheet with an empty buffer save is not a no-op, the sheet
  is no longer new afterwards (and insertColumn then refuses it).
\<close>

theorem Worksheet_save_empty_not_noop:
  "Worksheet_save
     \<lparr>title = ''test1'', is_new = True, worksheet = Map.empty, current_row = - 1, data = []\<rparr> \<noteq>
   \<lparr>title = ''test1'', is_new = True, worksheet = Map.empty, current_row = - 1, data = []\<rparr>"
  by (simp add: Worksheet_save_def)

section \<open>Worksheet.getColumnId\<close>

text \<open>
  C5 fails on the code. With the header row \<^verbatim>\<open>a<TAB>b\<close>, looking up \<^verbatim>\<open>a\<close> raises
  NameError (the module \<^verbatim>\<open>string\<close> is never imported) where the claim returns the
  letter A, and looking up \<^verbatim>\<open>z\<close> raises ValueError where the claim fails with the
  column-not-found IndexError.
\<close>

theorem getColumnId_unbound_string:
  "getColumnId ''a''
     \<lparr>title = ''test1'', is_new = True, worksheet = Map.empty, current_row = - 1,
      data = [''a'' @ [TAB] @ ''b'']\<rparr> = Inl (NameError ''string'') \<and>
   getColumnId ''z''
     \<lparr>title = ''test1'', is_new = True, worksheet = Map.empty, current_row = - 1,
      data = [''a'' @ [TAB] @ ''b'']\<rparr> = Inl ValueError"
  by (simp add: getColumnId_def getColumnId_with_def module_globals_def TAB_def)

text \<open>On no sheet and for no name does getColumnId return a letter.\<close>

lemma getColumnId_never_returns: "getColumnId nm ws \<noteq> Inr c"
  by (simp add: getColumnId_def getColumnId_with_def module_globals_def
      split: list.splits option.splits)

text \<open>With \<^verbatim>\<open>import string\<close> the same lookup would give the letter.\<close>

lemma getColumnId_with_string:
  "getColumnId_with (''string'' # module_globals) ''b''
     \<lparr>title = ''test1'', is_new = True, worksheet = Map.empty, current_row = - 1,
      data = [''a'' @ [TAB] @ ''b'']\<rparr> = Inr ''B''"
  by (simp add: getColumnId_with_def TAB_def py_index_def string_uppercase_def)

section \<open>Worksheet.insertColumn with a list of items\<close>

text \<open>
  C3 fails on the code. The item of a data row is \<^verbatim>\<open>insert_items[j-1]\<close> with \<open>j\<close> the
  column index, not the row index: inserting the list 10, 20 at position 1 into three
  rows gives both data rows the item 10, where the claim gives the second data row 20.
\<close>

theorem insertColumn_list_by_column:
  "insertColumn 1 (Items [''10'', ''20'']) ''X''
     \<lparr>title = ''test1'', is_new = True, worksheet = Map.empty, current_row = - 1,
      data = [''a'' @ [TAB] @ ''b'', ''c'' @ [TAB] @ ''d'', ''e'' @ [TAB] @ ''f'']\<rparr> =
   (Inr True,
    \<lparr>title = ''test1'', is_new = True, worksheet = Map.empty, current_row = - 1,
      data = [''a'' @ [TAB] @ ''X'' @ [TAB] @ ''b'', ''c'' @ [TAB] @ ''10'' @ [TAB] @ ''d'',
              ''e'' @ [TAB] @ ''10'' @ [TAB] @ ''f'']\<rparr>)"
  by (simp add: insertColumn_def TAB_def join_items_def insert_item_def py_index_def)

section \<open>The style string of Spreadsheet.addRow\<close>

lemma style_keys_order: "style_keys = [''pattern'', ''font'', ''alignment'']"
  by code_simp

lemma easyxf_loop_concat:
  "easyxf_loop style keys acc =
     acc @ concat (map (\<lambda>key. if style key \<noteq> [] then
                                  key @ '': '' @ py_join '', '' (style key) @ ''; ''
                                else []) keys)"
  by (induction keys arbitrary: acc) simp_all

text \<open>
  C7, as the code has it: the style string depends on \<open>bold\<close>, \<open>wrap\<close> and
  \<open>bg_color\<close> only; its clauses stand in the order in which the dict lists its keys,
  whatever that order is, and in CPython 2 the order is pattern, font, alignment; with
  no attribute set it is the empty string, which \<^verbatim>\<open>easyxf\<close> turns into the default
  style.
\<close>

theorem easyxf_style_clauses:
  "(bold = bold' \<and> wrap = wrap' \<and> bg_color = bg_color' \<longrightarrow>
      easyxf_style bold wrap bg_color = easyxf_style bold' wrap' bg_color') \<and>
   easyxf_style_with keys bold wrap bg_color =
     concat (map (\<lambda>key. if style_dict bold wrap bg_color key \<noteq> [] then
                           key @ '': '' @ py_join '', '' (style_dict bold wrap bg_color key) @
                           ''; ''
                         else []) keys) \<and>
   easyxf_style bold wrap bg_color =
     (if bg_color \<noteq> [] then ''pattern: pattern solid, fore_color '' @ bg_color @ ''; ''
      else []) @
     (if bold then ''font: bold True; '' else []) @
     (if wrap then ''alignment: wrap True; '' else []) \<and>
   easyxf_style_with keys False False [] = [] \<and>
   easyxf_style False False [] = []"
proof -
  have general: "easyxf_style_with ks b w c =
     concat (map (\<lambda>key. if style_dict b w c key \<noteq> [] then
                           key @ '': '' @ py_join '', '' (style_dict b w c key) @ ''; ''
                         else []) ks)" for ks b w c
    by (simp add: easyxf_style_with_def easyxf_loop_concat)
  have cpython: "easyxf_style b w c =
     (if c \<noteq> [] then ''pattern: pattern solid, fore_color '' @ c @ ''; '' else []) @
     (if b then ''font: bold True; '' else []) @
     (if w then ''alignment: wrap True; '' else [])" for b w c
    by (simp add: easyxf_style_def easyxf_style_with_def style_keys_order style_dict_def)
  have empty: "easyxf_style_with ks False False [] = []" for ks
    by (simp add: general style_dict_def)
  show ?thesis
    using general [of keys bold wrap bg_color] cpython [of bold wrap bg_color]
      cpython [of False False "[]"] empty [of keys]
    by simp
qed

theorem easyxf_style_clauses_witness:
  "easyxf_style True True ''red'' =
     ''pattern: pattern solid, fore_color red; font: bold True; alignment: wrap True; ''"
  using easyxf_style_clauses [of True True True True "''red''" "''red''"]
  by simp

text \<open>
  C7 as stated fails: for a bold row on a red background the pattern clause comes
  first, not the font clause.
\<close>

theorem easyxf_style_pattern_first:
  "easyxf_style True False ''red'' =
     ''pattern: pattern solid, fore_color red; font: bold True; '' \<and>
   easyxf_style True False ''red'' \<noteq>
     ''font: bold True; pattern: pattern solid, fore_color red; ''"
  by (simp add: easyxf_style_def easyxf_style_with_def style_keys_order style_dict_def)

section \<open>Workbook.addSheet\<close>

lemma sheet_index_Some:
  "sheet_index t ss = Some i \<Longrightarrow> i < length ss \<and> title (ss ! i) = t"
  by (induction ss arbitrary: i) (auto split: if_splits)

lemma sheet_index_append_new:
  "sheet_index t ss = None \<Longrightarrow> title w = t \<Longrightarrow> sheet_index t (ss @ [w]) = Some (length ss)"
  by (induction ss) (auto split: if_splits)

lemma sheet_index_None_filter:
  "sheet_index t ss = None \<Longrightarrow> filter (\<lambda>s. title s = t) ss = []"
  by (induction ss) (auto split: if_splits)

lemma sheet_index_Some_filter:
  "sheet_index t ss = Some i \<Longrightarrow> filter (\<lambda>s. title s = t) ss \<noteq> []"
  by (induction ss arbitrary: i) (auto split: if_splits)

text \<open>A title that a sheet of the workbook has already gives that sheet back.\<close>

lemma addSheet_existing:
  "sheet_index t (sheets wb) = Some i \<Longrightarrow> addSheet t None None wb = (Inr i, wb)"
  by (simp add: addSheet_def getSheet_def)

text \<open>
  A title that no sheet of the workbook has gives a new, empty sheet at the end of
  \<open>sheets\<close>. (The xlwt sheet behind it comes from \<^verbatim>\<open>add_sheet\<close>, which the model of
  \<^verbatim>\<open>Worksheet.__init__\<close> takes to return a sheet for the title.)
\<close>

lemma addSheet_new:
  "sheet_index t (sheets wb) = None \<Longrightarrow>
   addSheet t None None wb =
     (Inr (length (sheets wb)),
      wb\<lparr>sheets := sheets wb @
            [\<lparr>title = t, is_new = True, worksheet = Map.empty, current_row = - 1,
              data = []\<rparr>]\<rparr>)"
  by (simp add: addSheet_def getSheet_def Worksheet_init_def append_sheet_def)

text \<open>
  C8: addSheet with a title returns a Worksheet. When a sheet of that title is in the
  workbook already, it returns that very sheet and leaves the whole workbook, the
  pending rows of the sheet included, as it is. Whatever sheet the first call returns,
  a second call with the same title returns the same object and changes nothing: the
  first call either found the sheet (workbook unchanged) or appended one new, empty
  sheet, and the number of sheets of that title is afterwards what it was before the
  first call, or one when there was none.
\<close>

theorem addSheet_twice:
  "(\<exists>ws wb'. addSheet t None None wb = (Inr ws, wb')) \<and>
   (\<forall>i. sheet_index t (sheets wb) = Some i \<longrightarrow> addSheet t None None wb = (Inr i, wb)) \<and>
   (\<forall>ws wb'. addSheet t None None wb = (Inr ws, wb') \<longrightarrow>
      addSheet t None None wb' = (Inr ws, wb') \<and>
      sheet_index t (sheets wb') = Some ws \<and>
      ws < length (sheets wb') \<and> title (sheets wb' ! ws) = t \<and>
      (case sheet_index t (sheets wb) of
         Some i \<Rightarrow> ws = i \<and> wb' = wb
       | None \<Rightarrow>
           ws = length (sheets wb) \<and>
           wb' = wb\<lparr>sheets := sheets wb @
                   [\<lparr>title = t, is_new = True, worksheet = Map.empty, current_row = - 1,
                     data = []\<rparr>]\<rparr>) \<and>
      length (filter (\<lambda>s. title s = t) (sheets wb')) =
        max 1 (length (filter (\<lambda>s. title s = t) (sheets wb))))"
proof (cases "sheet_index t (sheets wb)")
  case None
  let ?w = "\<lparr>title = t, is_new = True, worksheet = Map.empty, current_row = - 1, data = []\<rparr>"
  let ?wb' = "wb\<lparr>sheets := sheets wb @ [?w]\<rparr>"
  have first: "addSheet t None None wb = (Inr (length (sheets wb)), ?wb')"
    using None by (rule addSheet_new)
  have idx: "sheet_index t (sheets ?wb') = Some (length (sheets wb))"
    using None by (simp add: sheet_index_append_new)
  have second: "addSheet t None None ?wb' = (Inr (length (sheets wb)), ?wb')"
    using idx by (rule addSheet_existing)
  have count: "length (filter (\<lambda>s. title s = t) (sheets ?wb')) =
               max 1 (length (filter (\<lambda>s. title s = t) (sheets wb)))"
    using None by (simp add: sheet_index_None_filter)
  show ?thesis
    using None first second idx count by simp
next
  case (Some i)
  have first: "addSheet t None None wb = (Inr i, wb)"
    using Some by (rule addSheet_existing)
  have count: "length (filter (\<lambda>s. title s = t) (sheets wb)) =
               max 1 (length (filter (\<lambda>s. title s = t) (sheets wb)))"
    using sheet_index_Some_filter [OF Some]
    by (cases "filter (\<lambda>s. title s = t) (sheets wb)") simp_all
  show ?thesis
    using Some first sheet_index_Some [OF Some] count by simp
qed

text \<open>
  On a workbook whose sheet \<^verbatim>\<open>test1\<close> holds a pending row, addSheet of \<^verbatim>\<open>test1\<close>
  returns that sheet, pending row and all; addSheet of the new title \<^verbatim>\<open>test2\<close>
  appends an empty sheet, and calling it again on the result returns that sheet and
  appends nothing.
\<close>

theorem addSheet_twice_witness:
  "addSheet ''test1'' None None
     \<lparr>name = ''test2.xls'',
      sheets = [\<lparr>title = ''test1'', is_new = True, worksheet = Map.empty, current_row = - 1,
                 data = [''Hello'' @ [TAB] @ ''Goodbye'']\<rparr>]\<rparr> =
   (Inr 0,
    \<lparr>name = ''test2.xls'',
     sheets = [\<lparr>title = ''test1'', is_new = True, worksheet = Map.empty, current_row = - 1,
                data = [''Hello'' @ [TAB] @ ''Goodbye'']\<rparr>]\<rparr>) \<and>
   addSheet ''test2'' None None
     \<lparr>name = ''test2.xls'',
      sheets = [\<lparr>title = ''test1'', is_new = True, worksheet = Map.empty, current_row = - 1,
                 data = [''Hello'' @ [TAB] @ ''Goodbye'']\<rparr>]\<rparr> =
   (Inr 1,
    \<lparr>name = ''test2.xls'',
     sheets = [\<lparr>title = ''test1'', is_new = True, worksheet = Map.empty, current_row = - 1,
                data = [''Hello'' @ [TAB] @ ''Goodbye'']\<rparr>,
               \<lparr>title = ''test2'', is_new = True, worksheet = Map.empty, current_row = - 1,
                data = []\<rparr>]\<rparr>) \<and>
   addSheet ''test2'' None None
     \<lparr>name = ''test2.xls'',
      sheets = [\<lparr>title = ''test1'', is_new = True, worksheet = Map.empty, current_row = - 1,
                 data = [''Hello'' @ [TAB] @ ''Goodbye'']\<rparr>,
                \<lparr>title = ''test2'', is_new = True, worksheet = Map.empty, current_row = - 1,
                 data = []\<rparr>]\<rparr> =
   (Inr 1,
    \<lparr>name = ''test2.xls'',
     sheets = [\<lparr>title = ''test1'', is_new = True, worksheet = Map.empty, current_row = - 1,
                data = [''Hello'' @ [TAB] @ ''Goodbye'']\<rparr>,
               \<lparr>title = ''test2'', is_new = True, worksheet = Map.empty, current_row = - 1,
                data = []\<rparr>]\<rparr>)"
proof -
  let ?s1 = "\<lparr>title = ''test1'', is_new = True, worksheet = Map.empty, current_row = - 1,
              data = [''Hello'' @ [TAB] @ ''Goodbye'']\<rparr>"
  let ?s2 = "\<lparr>title = ''test2'', is_new = True, worksheet = Map.empty, current_row = - 1,
              data = []\<rparr>"
  let ?wb = "\<lparr>name = ''test2.xls'', sheets = [?s1]\<rparr>"
  let ?wb' = "\<lparr>name = ''test2.xls'', sheets = [?s1, ?s2]\<rparr>"
  have found: "sheet_index ''test1'' (sheets ?wb) = Some 0"
    by simp
  have "\<forall>i. sheet_index ''test1'' (sheets ?wb) = Some i \<longrightarrow>
            addSheet ''test1'' None None ?wb = (Inr i, ?wb)"
    using addSheet_twice [of "''test1''" ?wb] by (elim conjE)
  with found have one: "addSheet ''test1'' None None ?wb = (Inr 0, ?wb)"
    by blast
  have first: "addSheet ''test2'' None None ?wb = (Inr 1, ?wb')"
    by (simp add: addSheet_def getSheet_def Worksheet_init_def append_sheet_def)
  have "\<forall>ws wb'. addSheet ''test2'' None None ?wb = (Inr ws, wb') \<longrightarrow>
            addSheet ''test2'' None None wb' = (Inr ws, wb')"
    using addSheet_twice [of "''test2''" ?wb] by blast
  with first have second: "addSheet ''test2'' None None ?wb' = (Inr 1, ?wb')"
    by blast
  show ?thesis
    using one first second by (intro conjI)
qed

section \<open>Splitting and joining rows\<close>

lemma py_split_not_Nil: "py_split d s \<noteq> []"
  by (induction s) simp_all

lemma py_join_Cons_Cons: "py_join sep ((c # x) # xs) = c # py_join sep (x # xs)"
  by (cases xs) simp_all

lemma py_join_split: "py_join [d] (py_split d s) = s"
proof (induction s)
  case Nil
  show ?case by simp
next
  case (Cons c cs)
  obtain y ys where p: "py_split d cs = y # ys"
    using py_split_not_Nil [of d cs] by (cases "py_split d cs") auto
  show ?case
    using Cons p by (simp add: py_join_Cons_Cons)
qed

lemma py_split_no_sep: "x \<in> set (py_split d s) \<Longrightarrow> d \<notin> set x"
proof (induction s arbitrary: x)
  case Nil
  then show ?case by simp
next
  case (Cons c cs)
  obtain y ys where p: "py_split d cs = y # ys"
    using py_split_not_Nil [of d cs] by (cases "py_split d cs") auto
  show ?case
    using Cons p by (auto split: if_splits)
qed

lemma py_split_append_sep:
  "d \<notin> set x \<Longrightarrow> py_split d (x @ d # rest) = x # py_split d rest"
  by (induction x) auto

lemma py_split_single: "d \<notin> set x \<Longrightarrow> py_split d x = [x]"
  by (induction x) auto

lemma py_split_join:
  "xs \<noteq> [] \<Longrightarrow> \<forall>x\<in>set xs. d \<notin> set x \<Longrightarrow> py_split d (py_join [d] xs) = xs"
proof (induction xs)
  case Nil
  then show ?case by simp
next
  case (Cons x xs)
  show ?case
  proof (cases xs)
    case Nil
    then show ?thesis using Cons.prems by (simp add: py_split_single)
  next
    case (Cons y ys)
    then show ?thesis
      using Cons.IH Cons.prems by (simp add: py_split_append_sep)
  qed
qed

section \<open>Worksheet.insertColumn on a new sheet\<close>

lemma insert_in_row_spec:
  "insert_in_row position ii t j items acc flag =
     (if int j \<le> position \<and> position < int j + int (length items) then
        (acc @ map Some (take (nat (position - int j)) items) @
           [if flag then Some t else insert_item ii (nat position)] @
           map Some (drop (nat (position - int j)) items), False)
      else (acc @ map Some items, flag))"
proof (induction items arbitrary: j acc flag)
  case Nil
  show ?case by simp
next
  case (Cons item items)
  show ?case
  proof (cases "int j = position")
    case True
    then have n: "nat position = j" by auto
    show ?thesis using True n by (simp add: Cons)
  next
    case False
    show ?thesis
    proof (cases "int j \<le> position \<and> position < int j + int (length (item # items))")
      case True
      with False have lt: "int j < position" by simp
      then have n: "nat (position - int j) = Suc (nat (position - int (Suc j)))"
        by simp
      show ?thesis using True False lt n by (simp add: Cons del: of_nat_Suc) 
    next
      case F2: False
      show ?thesis using False F2 by (auto simp add: Cons)
    qed
  qed
qed

lemma join_items_Some: "join_items (map Some xs) = Inr (py_join [TAB] xs)"
  by (auto simp: join_items_def comp_def)

lemma join_items_splice:
  "join_items (map Some xs @ [tok] @ map Some ys) =
     (case tok of None \<Rightarrow> Inl TypeError | Some x \<Rightarrow> Inr (py_join [TAB] (xs @ [x] @ ys)))"
  by (auto simp: join_items_def comp_def split: option.splits)

lemma insert_rows_spec:
  assumes "insert_rows position ii t done rows flag = (Inr True, out)"
  shows "\<exists>new. out = done @ new \<and>
           list_all2 (\<lambda>row new_row.
             if 0 \<le> position \<and> position < int (length (py_split TAB row)) then
               \<exists>new_item. (new_item = t \<or> insert_item ii (nat position) = Some new_item) \<and>
                 new_row = py_join [TAB] (take (nat position) (py_split TAB row) @ [new_item] @
                                          drop (nat position) (py_split TAB row))
             else new_row = row) rows new"
  using assms
proof (induction rows arbitrary: "done" flag out)
  case Nil
  then show ?case by simp
next
  case (Cons row rows)
  let ?items = "py_split TAB row"
  let ?tok = "if flag then Some t else insert_item ii (nat position)"
  show ?case
  proof (cases "0 \<le> position \<and> position < int (length ?items)")
    case True
    then have row_eq: "insert_in_row position ii t 0 ?items [] flag =
        (map Some (take (nat position) ?items) @ [?tok] @ map Some (drop (nat position) ?items),
         False)"
      by (simp add: insert_in_row_spec)
    show ?thesis
    proof (cases ?tok)
      case None
      then have "insert_rows position ii t done (row # rows) flag = (Inl TypeError, done @ row # rows)"
        using row_eq by (simp add: join_items_splice del: append_Cons append_Nil)
      with Cons.prems show ?thesis by simp
    next
      case (Some x)
      let ?new_row = "py_join [TAB] (take (nat position) ?items @ [x] @ drop (nat position) ?items)"
      have step: "insert_rows position ii t done (row # rows) flag =
                  insert_rows position ii t (done @ [?new_row]) rows False"
        using row_eq Some by (simp add: join_items_splice del: append_Cons append_Nil)
      with Cons.prems have "insert_rows position ii t (done @ [?new_row]) rows False = (Inr True, out)"
        by simp
      from Cons.IH [OF this] obtain new where
        new: "out = (done @ [?new_row]) @ new" and
        rel: "list_all2 (\<lambda>row new_row.
             if 0 \<le> position \<and> position < int (length (py_split TAB row)) then
               \<exists>new_item. (new_item = t \<or> insert_item ii (nat position) = Some new_item) \<and>
                 new_row = py_join [TAB] (take (nat position) (py_split TAB row) @ [new_item] @
                                          drop (nat position) (py_split TAB row))
             else new_row = row) rows new"
        by blast
      have x: "x = t \<or> insert_item ii (nat position) = Some x"
        using Some by (auto split: if_splits)
      have "out = done @ (?new_row # new)" using new by simp
      moreover have "list_all2 (\<lambda>row new_row.
             if 0 \<le> position \<and> position < int (length (py_split TAB row)) then
               \<exists>new_item. (new_item = t \<or> insert_item ii (nat position) = Some new_item) \<and>
                 new_row = py_join [TAB] (take (nat position) (py_split TAB row) @ [new_item] @
                                          drop (nat position) (py_split TAB row))
             else new_row = row) (row # rows) (?new_row # new)"
        using rel True x by auto
      ultimately show ?thesis by blast
    qed
  next
    case False
    then have row_eq: "insert_in_row position ii t 0 ?items [] flag = (map Some ?items, flag)"
      by (auto simp add: insert_in_row_spec)
    have step: "insert_rows position ii t done (row # rows) flag =
                insert_rows position ii t (done @ [row]) rows flag"
      using row_eq by (simp add: join_items_Some py_join_split)
    with Cons.prems have "insert_rows position ii t (done @ [row]) rows flag = (Inr True, out)"
      by simp
    from Cons.IH [OF this] obtain new where
        new: "out = (done @ [row]) @ new" and
        rel: "list_all2 (\<lambda>row new_row.
             if 0 \<le> position \<and> position < int (length (py_split TAB row)) then
               \<exists>new_item. (new_item = t \<or> insert_item ii (nat position) = Some new_item) \<and>
                 new_row = py_join [TAB] (take (nat position) (py_split TAB row) @ [new_item] @
                                          drop (nat position) (py_split TAB row))
             else new_row = row) rows new"
      by blast
    have "out = done @ (row # new)" using new by simp
    moreover have "list_all2 (\<lambda>row new_row.
             if 0 \<le> position \<and> position < int (length (py_split TAB row)) then
               \<exists>new_item. (new_item = t \<or> insert_item ii (nat position) = Some new_item) \<and>
                 new_row = py_join [TAB] (take (nat position) (py_split TAB row) @ [new_item] @
                                          drop (nat position) (py_split TAB row))
             else new_row = row) (row # rows) (row # new)"
      using rel False by auto
    ultimately show ?thesis by blast
  qed
qed

lemma insert_item_Some: "ii \<noteq> NoItems \<Longrightarrow> \<exists>x. insert_item ii j = Some x"
  by (cases ii) (auto simp: insert_item_def split: option.splits)

lemma insert_rows_succeeds:
  "ii \<noteq> NoItems \<Longrightarrow> \<exists>out. insert_rows position ii t done rows flag = (Inr True, out)"
proof (induction rows arbitrary: "done" flag)
  case Nil
  show ?case by simp
next
  case (Cons row rows)
  obtain x where x: "insert_item ii (nat position) = Some x"
    using insert_item_Some [OF Cons.prems] by blast
  show ?case
    using Cons.IH [OF Cons.prems] x
    by (auto simp add: insert_in_row_spec join_items_splice [simplified] join_items_Some)
qed

lemma insertColumn_succeeds:
  "is_new ws \<Longrightarrow> insert_items \<noteq> NoItems \<Longrightarrow>
   \<exists>ws'. insertColumn position insert_items t ws = (Inr True, ws')"
  using insert_rows_succeeds [of insert_items position t "[]" "data ws" True]
  by (auto simp: insertColumn_def)

text \<open>
  What insertColumn does to the rows when it returns True on a new sheet: only \<open>data\<close>
  changes, and a row that has more than \<open>position\<close> items gets one item put in at
  \<open>position\<close> (the title or the data item), the items before it unchanged and the
  items from \<open>position\<close> on moved by one. A row with at most \<open>position\<close> items
  stays as it is.
\<close>

lemma insertColumn_rows:
  assumes "is_new ws" and "insertColumn position insert_items t ws = (Inr True, ws')"
  shows "ws' = ws\<lparr>data := data ws'\<rparr> \<and> worksheet ws' = worksheet ws \<and>
         length (data ws') = length (data ws) \<and>
         (\<forall>i<length (data ws).
            let items = py_split TAB (data ws ! i) in
            if 0 \<le> position \<and> position < int (length items) then
              \<exists>new_item.
                (new_item = t \<or> insert_item insert_items (nat position) = Some new_item) \<and>
                data ws' ! i =
                  py_join [TAB] (take (nat position) items @ [new_item] @ drop (nat position) items) \<and>
                (TAB \<notin> set new_item \<longrightarrow>
                   py_split TAB (data ws' ! i) =
                     take (nat position) items @ [new_item] @ drop (nat position) items)
            else data ws' ! i = data ws ! i)"
proof -
  obtain res rows where r: "insert_rows position insert_items t [] (data ws) True = (res, rows)"
    by (cases "insert_rows position insert_items t [] (data ws) True")
  with assms have res: "res = Inr True" and ws': "ws' = ws\<lparr>data := rows\<rparr>"
    by (simp_all add: insertColumn_def)
  from insert_rows_spec [of position insert_items t "[]" "data ws" True rows] r res
  have rel: "list_all2 (\<lambda>row new_row.
             if 0 \<le> position \<and> position < int (length (py_split TAB row)) then
               \<exists>new_item. (new_item = t \<or> insert_item insert_items (nat position) = Some new_item) \<and>
                 new_row = py_join [TAB] (take (nat position) (py_split TAB row) @ [new_item] @
                                          drop (nat position) (py_split TAB row))
             else new_row = row) (data ws) rows"
    by simp
  have len: "length rows = length (data ws)"
    using rel by (simp add: list_all2_lengthD)
  have rows: "\<forall>i<length (data ws).
            let items = py_split TAB (data ws ! i) in
            if 0 \<le> position \<and> position < int (length items) then
              \<exists>new_item.
                (new_item = t \<or> insert_item insert_items (nat position) = Some new_item) \<and>
                rows ! i =
                  py_join [TAB] (take (nat position) items @ [new_item] @ drop (nat position) items) \<and>
                (TAB \<notin> set new_item \<longrightarrow>
                   py_split TAB (rows ! i) =
                     take (nat position) items @ [new_item] @ drop (nat position) items)
            else rows ! i = data ws ! i"
  proof (intro allI impI)
    fix i assume i: "i < length (data ws)"
    let ?items = "py_split TAB (data ws ! i)"
    have at_i: "if 0 \<le> position \<and> position < int (length ?items) then
               \<exists>new_item. (new_item = t \<or> insert_item insert_items (nat position) = Some new_item) \<and>
                 rows ! i = py_join [TAB] (take (nat position) ?items @ [new_item] @
                                          drop (nat position) ?items)
             else rows ! i = data ws ! i"
      using list_all2_nthD [OF rel i] by simp
    show "let items = py_split TAB (data ws ! i) in
            if 0 \<le> position \<and> position < int (length items) then
              \<exists>new_item.
                (new_item = t \<or> insert_item insert_items (nat position) = Some new_item) \<and>
                rows ! i =
                  py_join [TAB] (take (nat position) items @ [new_item] @ drop (nat position) items) \<and>
                (TAB \<notin> set new_item \<longrightarrow>
                   py_split TAB (rows ! i) =
                     take (nat position) items @ [new_item] @ drop (nat position) items)
            else rows ! i = data ws ! i"
    proof (cases "0 \<le> position \<and> position < int (length ?items)")
      case False
      then show ?thesis using at_i by (auto simp add: Let_def)
    next
      case True
      then obtain new_item where
        ni: "new_item = t \<or> insert_item insert_items (nat position) = Some new_item" and
        eq: "rows ! i = py_join [TAB] (take (nat position) ?items @ [new_item] @
                                          drop (nat position) ?items)"
        using at_i by auto
      have split: "py_split TAB (rows ! i) =
                     take (nat position) ?items @ [new_item] @ drop (nat position) ?items"
        if tab: "TAB \<notin> set new_item"
      proof -
        have "\<forall>x\<in>set (take (nat position) ?items @ [new_item] @ drop (nat position) ?items).
                TAB \<notin> set x"
          using tab py_split_no_sep [of _ TAB "data ws ! i"]
          by (auto dest: in_set_takeD in_set_dropD)
        then show ?thesis
          unfolding eq by (intro py_split_join) simp_all
      qed
      show ?thesis
        unfolding Let_def using True ni eq split by auto
    qed
  qed
  have d: "data ws' = rows" and w: "worksheet ws' = worksheet ws"
    using ws' by simp_all
  show ?thesis
    unfolding d using ws' w len rows by (intro conjI) assumption+
qed

text \<open>An example: both rows have more than one item, and each gets its item at position 1.\<close>

lemma insertColumn_rows_example:
  "insertColumn 1 (Item ''v'') ''X''
     \<lparr>title = ''test1'', is_new = True, worksheet = Map.empty, current_row = - 1,
      data = [''a'' @ [TAB] @ ''b'', ''c'' @ [TAB] @ ''d'']\<rparr> =
   (Inr True,
    \<lparr>title = ''test1'', is_new = True, worksheet = Map.empty, current_row = - 1,
     data = [''a'' @ [TAB] @ ''X'' @ [TAB] @ ''b'', ''c'' @ [TAB] @ ''v'' @ [TAB] @ ''d'']\<rparr>)"
  by (simp add: insertColumn_def TAB_def join_items_def insert_item_def)

text \<open>
  C6 fails on the code. On a new sheet with the one row \<^verbatim>\<open>a\<close>, insertColumn at
  position 1 returns True and leaves the row as it is: the row has no item at index 1
  for the loop to insert in front of, so no item is put in, where the claim (and the
  docstring, "inserts a new column into each row of data") has a new item in every row.
  What still holds is the rest of the claim, by \<open>insertColumn_rows\<close>: the items of such
  a row, all of them before \<open>position\<close>, are unchanged, a row with more than
  \<open>position\<close> items does get its new item, and the xlwt sheet is not touched.
\<close>

theorem insertColumn_short_row:
  "is_new \<lparr>title = ''test1'', is_new = True, worksheet = Map.empty, current_row = - 1,
           data = [''a'']\<rparr> \<and>
   insertColumn 1 (Item ''v'') ''X''
     \<lparr>title = ''test1'', is_new = True, worksheet = Map.empty, current_row = - 1,
      data = [''a'']\<rparr> =
   (Inr True,
    \<lparr>title = ''test1'', is_new = True, worksheet = Map.empty, current_row = - 1,
     data = [''a'']\<rparr>) \<and>
   \<not> (\<exists>new_item. py_split TAB ''a'' =
         take 1 (py_split TAB ''a'') @ [new_item] @ drop 1 (py_split TAB ''a''))"
  by (simp add: insertColumn_def TAB_def join_items_def insert_item_def)

section \<open>Appending to a sheet that exists already\<close>

lemma save_items_at:
  "save_items row cindex items g (r, c) =
     (if r = row \<and> cindex \<le> c \<and> c < cindex + length items
      then Some (item_cell (items ! (c - cindex)) row) else g (r, c))"
proof (induction items arbitrary: cindex g)
  case Nil
  show ?case by auto
next
  case (Cons item items)
  show ?case
    by (auto simp add: Cons xlwt_write_def item_cell_def nth_Cons')
qed

lemma save_rows_fst: "fst (save_rows rows cur g) = cur + int (length rows)"
  by (induction rows arbitrary: cur g) simp_all

lemma save_rows_at:
  "snd (save_rows rows cur g) (r, c) =
     (if cur < r \<and> r \<le> cur + int (length rows) \<and>
         c < length (py_split TAB (rows ! nat (r - cur - 1)))
      then Some (item_cell (py_split TAB (rows ! nat (r - cur - 1)) ! c) r)
      else g (r, c))"
proof (induction rows arbitrary: cur g)
  case Nil
  show ?case by auto
next
  case (Cons row rows)
  have n: "nat (r - cur - 1) = Suc (nat (r - (cur + 1) - 1))" if "cur + 1 < r"
    using that by simp
  show ?case
  proof (cases "cur + 1 < r")
    case True
    show ?thesis
      using True n [OF True] by (simp add: Cons save_items_at)
  next
    case False
    show ?thesis
      using False by (auto simp add: Cons save_items_at)
  qed
qed

text \<open>
  The Worksheet class does what C1 says: a sheet made from an existing one of \<open>N\<close>
  rows starts with the cursor \<open>N - 1\<close>, and saving \<open>M\<close> added rows leaves the
  first \<open>N\<close> rows as they were, writes the new rows to the rows \<open>N\<close> to
  \<open>N + M - 1\<close> and nothing beyond them.
\<close>

lemma Worksheet_append_after_existing:
  assumes "Worksheet_init t (Some i) (Some rs) = Inr ws"
  shows "current_row ws = int (nrows rs) - 1"
    and "current_row (Worksheet_save (addTabData rows ws)) =
           int (nrows rs) + int (length rows) - 1"
    and "r < int (nrows rs) \<Longrightarrow>
           worksheet (Worksheet_save (addTabData rows ws)) (r, c) = copy_sheet rs (r, c)"
    and "k < length rows \<Longrightarrow>
           worksheet (Worksheet_save (addTabData rows ws)) (int (nrows rs) + int k, c) =
             (if c < length (py_split TAB (rows ! k))
              then Some (item_cell (py_split TAB (rows ! k) ! c) (int (nrows rs) + int k))
              else None)"
    and "int (nrows rs) + int (length rows) \<le> r \<Longrightarrow>
           worksheet (Worksheet_save (addTabData rows ws)) (r, c) = None"
proof -
  have ws: "ws = \<lparr>title = t, is_new = False, worksheet = copy_sheet rs,
                  current_row = int (nrows rs) - 1, data = []\<rparr>"
    using assms by (simp add: Worksheet_init_def)
  have saved: "Worksheet_save (addTabData rows ws) =
      ws\<lparr>worksheet := snd (save_rows rows (int (nrows rs) - 1) (copy_sheet rs)),
         current_row := fst (save_rows rows (int (nrows rs) - 1) (copy_sheet rs)),
         data := [], is_new := False\<rparr>"
    by (simp add: ws Worksheet_save_def addTabData_def case_prod_unfold)
  show "current_row ws = int (nrows rs) - 1"
    by (simp add: ws)
  show "current_row (Worksheet_save (addTabData rows ws)) =
           int (nrows rs) + int (length rows) - 1"
    by (simp add: saved save_rows_fst)
  show "worksheet (Worksheet_save (addTabData rows ws)) (r, c) = copy_sheet rs (r, c)"
    if "r < int (nrows rs)"
    using that by (simp add: saved save_rows_at)
  show "worksheet (Worksheet_save (addTabData rows ws)) (int (nrows rs) + int k, c) =
             (if c < length (py_split TAB (rows ! k))
              then Some (item_cell (py_split TAB (rows ! k) ! c) (int (nrows rs) + int k))
              else None)"
    if "k < length rows"
  proof -
    have "nat (int (nrows rs) + int k) = nrows rs + k"
      by simp
    then show ?thesis
      using that by (simp add: saved save_rows_at copy_sheet_def)
  qed
  show "worksheet (Worksheet_save (addTabData rows ws)) (r, c) = None"
    if "int (nrows rs) + int (length rows) \<le> r"
  proof -
    have "\<not> nat r < nrows rs"
      using that by linarith
    then show ?thesis
      using that by (simp add: saved save_rows_at copy_sheet_def)
  qed
qed

lemma Worksheet_append_example:
  "\<exists>ws. Worksheet_init ''test'' (Some 0)
           (Some \<lparr>sheet_name = ''test'', nrows = 1, ncols = 1,
                  cell_value = (\<lambda>r c. ''File'')\<rparr>) = Inr ws \<and>
         current_row ws = 0 \<and>
         current_row (Worksheet_save (addText ''DR_1'' ws)) = 1 \<and>
         worksheet (Worksheet_save (addText ''DR_1'' ws)) (0, 0) = Some (Data ''File'') \<and>
         worksheet (Worksheet_save (addText ''DR_1'' ws)) (1, 0) = Some (Data ''DR_1'') \<and>
         worksheet (Worksheet_save (addText ''DR_1'' ws)) (2, 0) = None"
  by (simp add: Worksheet_init_def addText_def addTabData_def Worksheet_save_def
      copy_sheet_def xlwt_write_def startswith_eq_def NEWLINE_def TAB_def)

text \<open>
  C1 fails on the code of \<^verbatim>\<open>Spreadsheet.__init__\<close>. Opened on a file whose sheet has
  one row, the cursor \<open>current_row\<close> is 1 and not 0, so the row that addRow appends
  lands in row 2 and row 1 stays empty: three rows, where the claim has two.
\<close>

theorem Spreadsheet_init_skips_a_row:
  "\<exists>s s'. Spreadsheet_init ''test.xls'' ''test''
             (Some \<lparr>sheet_name = ''test'', nrows = 1, ncols = 1,
                    cell_value = (\<lambda>r c. ''File'')\<rparr>) = Inr s \<and>
           Spreadsheet.current_row s = 1 \<and>
           addRow [''DR_1''] False False False [] s = (Inr 2, s') \<and>
           sheet s' (0, 0) = Some (Data ''File'') \<and>
           sheet s' (1, 0) = None \<and>
           sheet s' (2, 0) = Some (Styled ''DR_1'' [])"
  by (simp add: Spreadsheet_init_def addRow_def copy_sheet_def xlwt_write_def
      startswith_eq_def easyxf_style_def easyxf_style_with_def style_keys_order
      style_dict_def)

end
